theory Spec2Isabelle
  imports Main
begin

section \<open>The enterprise API server (src/server/enterprise/server/api_server.go)\<close>

text \<open>
  A shallow embedding of the enterprise activation server: the activation-code check
  \<open>validateActivationCode\<close>, the two RPCs \<open>Activate\<close> and \<open>GetState\<close>, and the
  background loop \<open>watchEnterpriseToken\<close> that keeps the cached expiry in step with the
  token stored in etcd.
\<close>

subsection \<open>Values\<close>

text \<open>
  A Go \<open>error\<close> is modelled by its message (what \<open>err.Error()\<close> gives), \<open>nil\<close> by
  \<open>None\<close> of \<open>error option\<close>. A \<open>time.Time\<close> is the instant it denotes, counted in
  nanoseconds from January 1, year 1, 00:00:00 UTC, so that the zero value \<open>time.Time{}\<close>
  is \<open>0\<close>, \<open>IsZero\<close> tests for it and \<open>After\<close> is the strict order of instants. The
  clock reading of \<open>time.Now()\<close> is an argument \<open>now\<close> of every function that reads it.
\<close>

type_synonym error = string
type_synonym bytes = string
type_synonym Time = int

definition zeroTime :: Time where
  "zeroTime = 0"

definition IsZero :: "Time \<Rightarrow> bool" where
  "IsZero t = (t = zeroTime)"

definition After :: "Time \<Rightarrow> Time \<Rightarrow> bool" where
  "After t u = (u < t)"

text \<open>A function that may panic instead of returning.\<close>

datatype 'a outcome = Return 'a | Panic

text \<open>
  \<open>types.Timestamp\<close>, the protobuf form of a time, and \<open>ec.EnterpriseRecord\<close>, whose
  \<open>Expires\<close> field is a pointer and may be nil.
\<close>

record Timestamp =
  Seconds :: int
  Nanos :: int

record EnterpriseRecord =
  ActivationCode :: string
  Expires :: "Timestamp option"

datatype State = State_NONE | State_ACTIVE | State_EXPIRED

datatype ActivateResponse = ActivateResponse

subsection \<open>The server\<close>

text \<open>
  \<open>enterpriseExpiry\<close> is the \<open>atomic.Value\<close>: \<open>None\<close> while nothing has been stored
  (then \<open>Load()\<close> gives nil and the type assertion to \<open>time.Time\<close> fails), \<open>Some t\<close>
  once a time has been stored; the code stores nothing but times. \<open>enterpriseToken\<close> is
  the content of the etcd collection the server writes to, by key. The logger and the
  etcd client handle carry no state of their own here.
\<close>

record apiServer =
  enterpriseExpiry :: "Time option"
  enterpriseToken :: "string \<rightharpoonup> EnterpriseRecord"

definition enterpriseTokenKey :: string where
  "enterpriseTokenKey = ''token''"

text \<open>
  \<open>NewEnterpriseServer\<close>: \<open>dial\<close> is what \<open>etcd.New\<close> returns, an error or the content
  of the collection behind the client. The watch loop is started after the zero time
  has been stored.
\<close>

definition NewEnterpriseServer :: "error + (string \<rightharpoonup> EnterpriseRecord) \<Rightarrow> error + apiServer" where
  "NewEnterpriseServer dial =
     (case dial of
        Inl err \<Rightarrow> Inl (''error constructing etcdClient: '' @ err)
      | Inr col \<Rightarrow> Inr \<lparr>enterpriseExpiry = Some zeroTime, enterpriseToken = col\<rparr>)"

subsection \<open>GetState\<close>

definition GetState :: "Time \<Rightarrow> apiServer \<Rightarrow> error + State" where
  "GetState now a =
     (case enterpriseExpiry a of
        None \<Rightarrow> Inl ''could not retrieve enterprise expiration time''
      | Some expiry \<Rightarrow>
          if IsZero expiry then Inr State_NONE
          else if After now expiry then Inr State_EXPIRED
          else Inr State_ACTIVE)"

subsection \<open>The library interface\<close>

text \<open>
  The standard and third-party library functions the server calls, as fields of a
  record that every function below takes as an argument; nothing is assumed about
  what they compute.
  \<^item> \<open>pem_Decode\<close>: the bytes of the first PEM block, \<open>None\<close> when \<open>pem.Decode\<close> finds none;
  \<^item> \<open>x509_ParsePKIXPublicKey\<close>: the parsed key, which is an RSA key or of another kind;
  \<^item> \<open>base64_DecodeString\<close>: \<open>base64.StdEncoding.DecodeString\<close>;
  \<^item> \<open>json_Unmarshal_activationCode\<close>: \<open>json.Unmarshal\<close> into the variable
    \<open>activationCode\<close>, which holds a pointer to a fresh struct and is passed by address;
    the result is the pointer the variable holds afterwards, \<open>None\<close> for nil;
  \<^item> \<open>json_Unmarshal_token\<close>: \<open>json.Unmarshal\<close> into the zero \<open>token\<close> struct;
  \<^item> \<open>rsa_VerifyPKCS1v15\<close> at hash \<open>crypto.SHA256\<close>: \<open>None\<close> (nil) when the signature fits;
  \<^item> \<open>time_Parse\<close> at layout \<open>time.RFC3339\<close>;
  \<^item> \<open>TimestampProto\<close>, \<open>TimestampFromProto\<close>: the conversions of gogo's \<open>types\<close>.
\<close>

record activationCode =
  Token :: string
  Signature :: string

record token =
  Expiry :: string

datatype PublicKey = rsa_PublicKey int int | other_PublicKey

record lib =
  pem_Decode :: "bytes \<Rightarrow> bytes option"
  x509_ParsePKIXPublicKey :: "bytes \<Rightarrow> error + PublicKey"
  base64_DecodeString :: "string \<Rightarrow> error + bytes"
  json_Unmarshal_activationCode :: "bytes \<Rightarrow> error + activationCode option"
  json_Unmarshal_token :: "bytes \<Rightarrow> error + token"
  sha256_Sum256 :: "bytes \<Rightarrow> bytes"
  rsa_VerifyPKCS1v15 :: "PublicKey \<Rightarrow> bytes \<Rightarrow> bytes \<Rightarrow> error option"
  time_Parse :: "string \<Rightarrow> error + Time"
  TimestampProto :: "Time \<Rightarrow> error + Timestamp"
  TimestampFromProto :: "Timestamp option \<Rightarrow> error + Time"

subsection \<open>validateActivationCode\<close>

definition newline :: string where
  "newline = [CHR 0x0A]"

definition publicKey :: string where
  "publicKey =
     ''-----BEGIN PUBLIC KEY-----'' @ newline @
     ''MIICIjANBgkqhkiG9w0BAQEFAAOCAg8AMIICCgKCAgEAoaPoEfv5RcVUbCuWNnOB'' @ newline @
     ''WtLHzcyQSe4SbtGGQom/X27iq/7s8dcebSsCd2cwYoyKihEQ5OlaghrhcxTTV5AN'' @ newline @
     ''39O6S0YnWjt/+4PWQQP3NpcEhqWj8RLPJtYq+JNrqlyjxBlca7vDcFSTa6iCqXay'' @ newline @
     ''iVD2OyTbWrD6KZ/YTSmSY8mY2qdYvHyp3Ue5ueH3rSkKRUjo4Jyjf59PntZD884P'' @ newline @
     ''yb9kC+weh/1KlbDQ4aV0U9p6DSBkW7dinOQj7a1/ikDoA9Nebnrkb1FF9Hr2+utO'' @ newline @
     ''We4e4yOViDzAP9hhQiBhOVR0F6wJF5i+NfuLit4tk5ViboogEZqIyuakTD6abSFg'' @ newline @
     ''UPqBTDDG0UsVqjnU5ysJ1DKQqALnOrxEKZoVXtH80/m7kgmeY3VDHCFt+WCSdaSq'' @ newline @
     ''1w8SoIpJAZPJpKlDjMxe+NqsX2qUODQ2KNkqfEqFtyUNZzfS9o9pEg/KJzDuDclM'' @ newline @
     ''oMQr1BG8vc3msX4UiGQPkohznwlCSGWf62IkSS6P8hQRCBKGRS5yGjmT3J+/chZw'' @ newline @
     ''Je46y8zNLV7t2pOL6UemdmDjTaMCt0YBc1FmG2eUipAWcHJWEHgQm2Yz6QjtBgvt'' @ newline @
     ''jFqnYeiDwdxU7CQD3oF9H+uVHqz8Jmmf9BxY9PhlMSUGPUsTpZ717ysL0UrBhQhW'' @ newline @
     ''xYp8vpeQ3by9WxPBE/WrxN8CAwEAAQ=='' @ newline @
     ''-----END PUBLIC KEY-----'' @ newline"

text \<open>
  The result is the pair \<open>(expiry, err)\<close> the Go function returns. Every error return
  carries \<open>time.Time{}\<close>. When \<open>json.Unmarshal\<close> leaves the nil pointer in
  \<open>activationCode\<close> without an error, reading \<open>activationCode.Signature\<close> panics.
\<close>

definition validateActivationCode :: "lib \<Rightarrow> Time \<Rightarrow> string \<Rightarrow> (Time \<times> error option) outcome" where
  "validateActivationCode L now code =
     (case pem_Decode L publicKey of
        None \<Rightarrow> Return (zeroTime, Some ''failed to pem decode public key'')
      | Some block \<Rightarrow>
     (case x509_ParsePKIXPublicKey L block of
        Inl err \<Rightarrow> Return (zeroTime, Some (''failed to parse DER encoded public key: '' @ err))
      | Inr pub \<Rightarrow>
     (case pub of
        other_PublicKey \<Rightarrow> Return (zeroTime, Some (''public key isn'' @ [CHR 0x27] @ ''t an RSA key''))
      | rsa_PublicKey n e \<Rightarrow>
     (case base64_DecodeString L code of
        Inl err \<Rightarrow> Return (zeroTime, Some ''activation code is not base64 encoded'')
      | Inr decodedActivationCode \<Rightarrow>
     (case json_Unmarshal_activationCode L decodedActivationCode of
        Inl err \<Rightarrow> Return (zeroTime, Some ''activation code is not valid JSON'')
      | Inr None \<Rightarrow> Panic
      | Inr (Some activationCode) \<Rightarrow>
     (case base64_DecodeString L (Signature activationCode) of
        Inl err \<Rightarrow> Return (zeroTime, Some ''signature is not base64 encoded'')
      | Inr decodedSignature \<Rightarrow>
     (let hashedToken = sha256_Sum256 L (Token activationCode) in
      case rsa_VerifyPKCS1v15 L pub hashedToken decodedSignature of
        Some err \<Rightarrow> Return (zeroTime, Some ''invalid signature in activation code'')
      | None \<Rightarrow>
     (case json_Unmarshal_token L (Token activationCode) of
        Inl err \<Rightarrow> Return (zeroTime, Some ''token is not valid JSON'')
      | Inr token \<Rightarrow>
     (case time_Parse L (Expiry token) of
        Inl err \<Rightarrow> Return (zeroTime, Some ''expiry is not valid ISO 8601 string'')
      | Inr expiry \<Rightarrow>
          if After now expiry
          then Return (zeroTime, Some ''the activation code has expired'')
          else Return (expiry, None))))))))))"

subsection \<open>Activate\<close>

text \<open>
  The transaction of \<open>col.NewSTM\<close> and the collection's \<open>ReadWrite(stm).Put\<close> belong
  to the package \<open>src/server/pkg/collection\<close>, which is not among the sources. The
  transaction body buffers its writes in the \<open>STM\<close>.
\<close>

type_synonym STM = "string \<rightharpoonup> EnterpriseRecord"

text \<open>
  Modelled from the spec: the collection's \<open>Put\<close> inside a transaction, an unconditional
  ("blind") write of the record under the given key.
\<close>

definition Put :: "STM \<Rightarrow> string \<Rightarrow> EnterpriseRecord \<Rightarrow> STM" where
  "Put stm key val = stm(key \<mapsto> val)"

text \<open>
  Modelled from the spec: \<open>col.NewSTM\<close>, the spec's \<open>commit\<close>: the writes are made
  inside a transaction that returns success or a store error and is never retried
  internally. A body that returns an error aborts the transaction with that error;
  otherwise the store answers the commit once, with \<open>fault\<close>: an error, and nothing
  is written, or \<open>None\<close>, and the buffered writes overwrite the collection.
\<close>

definition NewSTM :: "error option \<Rightarrow> (string \<rightharpoonup> EnterpriseRecord) \<Rightarrow> (STM \<Rightarrow> STM \<times> error option)
    \<Rightarrow> (string \<rightharpoonup> EnterpriseRecord) \<times> error option" where
  "NewSTM fault col body =
     (case body Map.empty of
        (stm, Some err) \<Rightarrow> (col, Some err)
      | (stm, None) \<Rightarrow>
          (case fault of
             Some err \<Rightarrow> (col, Some err)
           | None \<Rightarrow> (col ++ stm, None)))"

text \<open>
  \<open>Activate\<close> returns the server as it leaves it and the pair \<open>(resp, retErr)\<close> as a
  sum: \<open>Inl\<close> the error (with a nil response), \<open>Inr\<close> the response.
\<close>

definition Activate :: "lib \<Rightarrow> Time \<Rightarrow> error option \<Rightarrow> apiServer \<Rightarrow> string
    \<Rightarrow> (apiServer \<times> (error + ActivateResponse)) outcome" where
  "Activate L now fault a code =
     (case validateActivationCode L now code of
        Panic \<Rightarrow> Panic
      | Return (expiry, Some err) \<Rightarrow>
          Return (a, Inl (''error validating activation code: '' @ err))
      | Return (expiry, None) \<Rightarrow>
          (case NewSTM fault (enterpriseToken a)
                  (\<lambda>stm. case TimestampProto L expiry of
                            Inl err \<Rightarrow> (stm, Some err)
                          | Inr expiryProto \<Rightarrow>
                              (Put stm enterpriseTokenKey
                                 \<lparr>ActivationCode = code, Expires = Some expiryProto\<rparr>, None)) of
             (col, Some err) \<Rightarrow> Return (a\<lparr>enterpriseToken := col\<rparr>, Inl err)
           | (col, None) \<Rightarrow> Return (a\<lparr>enterpriseToken := col\<rparr>, Inr ActivateResponse)))"

subsection \<open>watchEnterpriseToken\<close>

text \<open>
  Modelled from the spec: \<open>watch.Event\<close> (package \<open>src/server/pkg/watch\<close>, which is not
  among the sources): a change event is tagged with its kind (\<open>Put\<close>, \<open>Delete\<close>,
  \<open>Error\<close>) and carries, for \<open>Put\<close> and \<open>Delete\<close>, the key and the record. \<open>Value\<close> is
  the record the event carries, \<open>None\<close> when it carries none; \<open>Err\<close> is the Go field of
  type \<open>error\<close> that the loop returns for an \<open>Error\<close> event, \<open>None\<close> for nil.
\<close>

datatype EventType = EventPut | EventDelete | EventError

record Event =
  Type :: EventType
  Key :: string
  Value :: "EnterpriseRecord option"
  Err :: "error option"

text \<open>
  Modelled from the spec: \<open>ev.Unmarshal(&key, &record)\<close>, whose error the loop drops:
  the variable \<open>record\<close>, declared just before with its zero value (no code, nil
  \<open>Expires\<close>), holds the event's record afterwards when the event carries one.
\<close>

definition Unmarshal :: "Event \<Rightarrow> EnterpriseRecord" where
  "Unmarshal ev =
     (case Value ev of
        None \<Rightarrow> \<lparr>ActivationCode = [], Expires = None\<rparr>
      | Some r \<Rightarrow> r)"

text \<open>
  One iteration of the \<open>for\<close> loop on the event \<open>ev\<close> read from the channel: the
  server as the iteration leaves it, and whether the loop goes on or the closure
  returns (\<open>Exit\<close>, with the error returned, \<open>None\<close> for nil). The comparison
  \<open>expiry == cachedExpiry\<close> is between two times that \<open>TimestampFromProto\<close> built (or
  the zero time), which are equal as Go structs exactly when they are the same instant.
\<close>

datatype control = Continue | Exit "error option"

definition watchEvent :: "lib \<Rightarrow> Event \<Rightarrow> apiServer \<Rightarrow> apiServer \<times> control" where
  "watchEvent L ev a =
     (let rec = Unmarshal ev in
      case TimestampFromProto L (Expires rec) of
        Inl err \<Rightarrow> (a, Exit (Some (''could not parse expiration timestamp: '' @ err)))
      | Inr expiry \<Rightarrow>
          (case Type ev of
             EventPut \<Rightarrow> (a\<lparr>enterpriseExpiry := Some expiry\<rparr>, Continue)
           | EventDelete \<Rightarrow>
               (case enterpriseExpiry a of
                  None \<Rightarrow> (a, Exit (Some ''could not retrieve cached expiration time''))
                | Some cachedExpiry \<Rightarrow>
                    if expiry = cachedExpiry
                    then (a\<lparr>enterpriseExpiry := Some zeroTime\<rparr>, Continue)
                    else (a, Continue))
           | EventError \<Rightarrow> (a, Exit (Err ev))))"

text \<open>The loop over the events the channel delivers, in delivery order.\<close>

fun watchEvents :: "lib \<Rightarrow> Event list \<Rightarrow> apiServer \<Rightarrow> apiServer \<times> control" where
  "watchEvents L [] a = (a, Continue)"
| "watchEvents L (ev # evs) a =
     (case watchEvent L ev a of
        (a', Continue) \<Rightarrow> watchEvents L evs a'
      | (a', Exit r) \<Rightarrow> (a', Exit r))"

text \<open>
  The closure passed to \<open>backoff.RetryNotify\<close>, run on a watcher that fails to open
  (\<open>Inl\<close>) or that delivers the events \<open>evs\<close> and then closes its channel.
\<close>

definition watchOperation :: "lib \<Rightarrow> error + Event list \<Rightarrow> apiServer \<Rightarrow> apiServer \<times> error option" where
  "watchOperation L watcher a =
     (case watcher of
        Inl err \<Rightarrow> (a, Some err)
      | Inr evs \<Rightarrow>
          (case watchEvents L evs a of
             (a', Continue) \<Rightarrow> (a', Some ''admin watch closed unexpectedly'')
           | (a', Exit r) \<Rightarrow> (a', r)))"

subsection \<open>The retry loop around the watch\<close>

text \<open>
  The background goroutine as a machine. A step consumes what the environment does next:
  the watch fails to open or opens, the channel delivers an event or closes, the
  backoff policy hands out the next delay.
\<close>

datatype phase = Connecting | Streaming | Backoff error | Terminated "error option"

record sync =
  server :: apiServer
  phase :: phase
  retries :: nat
  logged :: "(error \<times> nat) list"

datatype input = WatchFailed error | WatchOpened | Delivered Event | ChannelClosed | NextBackOff nat

text \<open>
  Modelled from the spec: what \<open>backoff.RetryNotify\<close> (package
  \<open>src/server/pkg/backoff\<close>, which is not among the sources) does with the result of
  the operation: nil ends the retry loop, an error is a failure to back off from.
\<close>

definition afterOperation :: "error option \<Rightarrow> phase" where
  "afterOperation r = (case r of None \<Rightarrow> Terminated None | Some err \<Rightarrow> Backoff err)"

text \<open>
  Modelled from the spec: the loop of \<open>backoff.RetryNotify\<close> with
  \<open>backoff.NewInfiniteBackOff()\<close> around the closure. The closure's part is the code's:
  the watch opening or failing to, \<open>watchEvent\<close> on each event delivered, the error for
  a closed channel. The loop's part follows the spec: after a failure the policy, which
  has no retry-count ceiling, always hands out a next delay \<open>d\<close>; the failure and the
  delay go to the \<open>notify\<close> callback, which here logs them and returns nil; the loop
  sleeps and runs the closure again. The length of the delays (exponential growth,
  jitter) is left to the environment.
\<close>

definition step :: "lib \<Rightarrow> sync \<Rightarrow> input \<Rightarrow> sync option" where
  "step L s i =
     (case (phase s, i) of
        (Connecting, WatchFailed err) \<Rightarrow> Some (s\<lparr>phase := afterOperation (Some err)\<rparr>)
      | (Connecting, WatchOpened) \<Rightarrow> Some (s\<lparr>phase := Streaming\<rparr>)
      | (Streaming, Delivered ev) \<Rightarrow>
          (case watchEvent L ev (server s) of
             (a', Continue) \<Rightarrow> Some (s\<lparr>server := a'\<rparr>)
           | (a', Exit r) \<Rightarrow> Some (s\<lparr>server := a', phase := afterOperation r\<rparr>))
      | (Streaming, ChannelClosed) \<Rightarrow>
          Some (s\<lparr>phase := afterOperation (Some ''admin watch closed unexpectedly'')\<rparr>)
      | (Backoff err, NextBackOff d) \<Rightarrow>
          Some (s\<lparr>phase := Connecting, retries := Suc (retries s), logged := logged s @ [(err, d)]\<rparr>)
      | _ \<Rightarrow> None)"

fun run :: "lib \<Rightarrow> sync \<Rightarrow> input list \<Rightarrow> sync option" where
  "run L s [] = Some s"
| "run L s (i # ins) = (case step L s i of None \<Rightarrow> None | Some s' \<Rightarrow> run L s' ins)"

text \<open>The goroutine as \<open>NewEnterpriseServer\<close> starts it on the server it has built.\<close>

definition startWatch :: "apiServer \<Rightarrow> sync" where
  "startWatch a = \<lparr>server = a, phase = Connecting, retries = 0, logged = []\<rparr>"

subsection \<open>The spec's error kinds\<close>

text \<open>
  The spec names the failures of the check by kind; the code tells them apart by
  message. \<open>spec_errorKind\<close> follows the spec's words (steps 2 to 9 of its Signature
  Verifier): it gives the kind the spec attaches to each message of the code.
\<close>

datatype spec_ErrorKind =
  InvalidEncoding | MalformedCode | InvalidSignature | MalformedToken | MalformedExpiry | AlreadyExpired

definition spec_errorKind :: "error \<Rightarrow> spec_ErrorKind option" where
  "spec_errorKind msg =
     (if msg = ''activation code is not base64 encoded'' then Some InvalidEncoding
      else if msg = ''activation code is not valid JSON'' then Some MalformedCode
      else if msg = ''signature is not base64 encoded'' then Some InvalidEncoding
      else if msg = ''invalid signature in activation code'' then Some InvalidSignature
      else if msg = ''token is not valid JSON'' then Some MalformedToken
      else if msg = ''expiry is not valid ISO 8601 string'' then Some MalformedExpiry
      else if msg = ''the activation code has expired'' then Some AlreadyExpired
      else None)"

text \<open>
  \<open>failsWith r msg kind\<close>: the check returned no time (the zero time) and the error
  \<open>msg\<close>, which the spec calls \<open>kind\<close>.
\<close>

definition failsWith :: "(Time \<times> error option) outcome \<Rightarrow> error \<Rightarrow> spec_ErrorKind \<Rightarrow> bool" where
  "failsWith r msg kind = (r = Return (zeroTime, Some msg) \<and> spec_errorKind msg = Some kind)"

subsection \<open>A sample library\<close>

text \<open>
  An instance of the library interface on which the server can be run: tables for the
  decoders over a handful of inputs, a signature scheme in which the signature of a
  digest \<open>h\<close> is \<open>sig\<close> followed by \<open>h\<close>, and the timestamp conversions with the range
  checks of gogo's \<open>types\<close>. The base64 table holds true base64 encodings.
\<close>

definition unixToInternal :: int where
  "unixToInternal = 62135596800"

definition sample_TimestampProto :: "Time \<Rightarrow> error + Timestamp" where
  "sample_TimestampProto t =
     (let seconds = t div 1000000000 - unixToInternal; nanos = t mod 1000000000 in
      if seconds < - 62135596800 then Inl ''timestamp: before 0001-01-01''
      else if seconds \<ge> 253402300800 then Inl ''timestamp: after 10000-01-01''
      else Inr \<lparr>Seconds = seconds, Nanos = nanos\<rparr>)"

definition sample_TimestampFromProto :: "Timestamp option \<Rightarrow> error + Time" where
  "sample_TimestampFromProto p =
     (case p of
        None \<Rightarrow> Inl ''timestamp: nil Timestamp''
      | Some ts \<Rightarrow>
          if Seconds ts < - 62135596800 then Inl ''timestamp: before 0001-01-01''
          else if Seconds ts \<ge> 253402300800 then Inl ''timestamp: after 10000-01-01''
          else if Nanos ts < 0 \<or> Nanos ts \<ge> 1000000000 then Inl ''timestamp: nanos not in range''
          else Inr ((Seconds ts + unixToInternal) * 1000000000 + Nanos ts))"

definition lookup :: "('k \<times> 'v) list \<Rightarrow> error \<Rightarrow> 'k \<Rightarrow> error + 'v" where
  "lookup table err k = (case map_of table k of None \<Rightarrow> Inl err | Some v \<Rightarrow> Inr v)"

text \<open>Noon, one hour before and one hour after, on November 1, 2017 (UTC).\<close>

definition noon :: Time where
  "noon = 63645134400 * 1000000000"

definition hour :: int where
  "hour = 3600 * 1000000000"

definition sample_lib :: lib where
  "sample_lib =
     \<lparr>pem_Decode = (\<lambda>b. if b = publicKey then Some ''der'' else None),
      x509_ParsePKIXPublicKey =
        lookup [(''der'', rsa_PublicKey 3233 17)] ''asn1: structure error'',
      base64_DecodeString =
        lookup
          [(''bnVsbA=='', ''null''),
           (''bm90IGpzb24='', ''not json''),
           (''ZXhwPTEzOjAwOyoqKg=='', ''exp=13:00;***''),
           (''ZXhwPTEzOjAwO1ptOXlaMlZr'', ''exp=13:00;Zm9yZ2Vk''),
           (''anVuaztjMmxuSTJwMWJtcz0='', ''junk;c2lnI2p1bms=''),
           (''ZXhwPXNvb247YzJsbkkyVjRjRDF6YjI5dQ=='', ''exp=soon;c2lnI2V4cD1zb29u''),
           (''ZXhwPTExOjAwO2MybG5JMlY0Y0QweE1Ub3dNQT09'', ''exp=11:00;c2lnI2V4cD0xMTowMA==''),
           (''ZXhwPTEzOjAwO2MybG5JMlY0Y0QweE16b3dNQT09'', ''exp=13:00;c2lnI2V4cD0xMzowMA==''),
           (''Zm9yZ2Vk'', ''forged''),
           (''c2lnI2p1bms='', ''sig#junk''),
           (''c2lnI2V4cD1zb29u'', ''sig#exp=soon''),
           (''c2lnI2V4cD0xMTowMA=='', ''sig#exp=11:00''),
           (''c2lnI2V4cD0xMzowMA=='', ''sig#exp=13:00'')]
          ''illegal base64 data'',
      json_Unmarshal_activationCode =
        lookup
          [(''null'', None),
           (''exp=13:00;***'', Some \<lparr>Token = ''exp=13:00'', Signature = ''***''\<rparr>),
           (''exp=13:00;Zm9yZ2Vk'', Some \<lparr>Token = ''exp=13:00'', Signature = ''Zm9yZ2Vk''\<rparr>),
           (''junk;c2lnI2p1bms='', Some \<lparr>Token = ''junk'', Signature = ''c2lnI2p1bms=''\<rparr>),
           (''exp=soon;c2lnI2V4cD1zb29u'',
              Some \<lparr>Token = ''exp=soon'', Signature = ''c2lnI2V4cD1zb29u''\<rparr>),
           (''exp=11:00;c2lnI2V4cD0xMTowMA=='',
              Some \<lparr>Token = ''exp=11:00'', Signature = ''c2lnI2V4cD0xMTowMA==''\<rparr>),
           (''exp=13:00;c2lnI2V4cD0xMzowMA=='',
              Some \<lparr>Token = ''exp=13:00'', Signature = ''c2lnI2V4cD0xMzowMA==''\<rparr>)]
          ''invalid character'',
      json_Unmarshal_token =
        lookup
          [(''exp=soon'', \<lparr>Expiry = ''soon''\<rparr>),
           (''exp=11:00'', \<lparr>Expiry = ''2017-11-01T11:00:00Z''\<rparr>),
           (''exp=13:00'', \<lparr>Expiry = ''2017-11-01T13:00:00Z''\<rparr>)]
          ''invalid character'',
      sha256_Sum256 = (\<lambda>b. ''#'' @ b),
      rsa_VerifyPKCS1v15 =
        (\<lambda>pub hashed sig. if sig = ''sig'' @ hashed then None else Some ''crypto/rsa: verification error''),
      time_Parse =
        lookup
          [(''2017-11-01T11:00:00Z'', noon - hour),
           (''2017-11-01T13:00:00Z'', noon + hour)]
          ''parsing time: cannot parse'',
      TimestampProto = sample_TimestampProto,
      TimestampFromProto = sample_TimestampFromProto\<rparr>"

text \<open>Sample activation codes: the base64 forms of the envelopes in the tables above.\<close>

definition validCode :: string where
  "validCode = ''ZXhwPTEzOjAwO2MybG5JMlY0Y0QweE16b3dNQT09''"

definition expiredCode :: string where
  "expiredCode = ''ZXhwPTExOjAwO2MybG5JMlY0Y0QweE1Ub3dNQT09''"

definition nullCode :: string where
  "nullCode = ''bnVsbA==''"

subsection \<open>Reachable servers and well-formed streams\<close>

text \<open>
  The servers that exist once \<open>NewEnterpriseServer\<close> has returned one: the server it
  built, and every server that an iteration of the watch loop or a call of \<open>Activate\<close>
  leaves behind. \<open>GetState\<close> changes nothing.
\<close>

inductive reachable :: "lib \<Rightarrow> apiServer \<Rightarrow> bool" for L :: lib where
  constructed: "NewEnterpriseServer dial = Inr a \<Longrightarrow> reachable L a"
| watched: "reachable L a \<Longrightarrow> watchEvent L ev a = (a', c) \<Longrightarrow> reachable L a'"
| activated: "reachable L a \<Longrightarrow> Activate L now fault a code = Return (a', r) \<Longrightarrow> reachable L a'"

definition terminated :: "sync \<Rightarrow> bool" where
  "terminated s = (case phase s of Terminated r \<Rightarrow> True | _ \<Rightarrow> False)"

text \<open>
  An \<open>Error\<close> event reports a failure of the stream by the error it carries:
  \<open>carriesError i\<close> holds of every input but a delivered \<open>Error\<close> event whose \<open>Err\<close>
  is nil.
\<close>

definition carriesError :: "input \<Rightarrow> bool" where
  "carriesError i =
     (case i of
        Delivered ev \<Rightarrow> (if Type ev = EventError then Err ev \<noteq> None else True)
      | _ \<Rightarrow> True)"

text \<open>
  Sample events on the key \<open>token\<close>: a \<open>Put\<close> and a \<open>Delete\<close> whose record expires
  \<open>secs\<close> seconds after the Unix epoch, and an \<open>Error\<close> event that carries the error
  \<open>err\<close> and no record.
\<close>

definition putEvent :: "int \<Rightarrow> Event" where
  "putEvent secs =
     \<lparr>Type = EventPut, Key = ''token'',
      Value = Some \<lparr>ActivationCode = validCode, Expires = Some \<lparr>Seconds = secs, Nanos = 0\<rparr>\<rparr>,
      Err = None\<rparr>"

definition deleteEvent :: "int \<Rightarrow> Event" where
  "deleteEvent secs =
     \<lparr>Type = EventDelete, Key = ''token'',
      Value = Some \<lparr>ActivationCode = validCode, Expires = Some \<lparr>Seconds = secs, Nanos = 0\<rparr>\<rparr>,
      Err = None\<rparr>"

definition errorEvent :: "error \<Rightarrow> Event" where
  "errorEvent err = \<lparr>Type = EventError, Key = [], Value = None, Err = Some err\<rparr>"

text \<open>
  A sample run of the goroutine: the watch fails to open, opens and delivers a \<open>Put\<close> and
  then an \<open>Error\<close> event, opens again and is closed.
\<close>

definition sampleRun :: "input list" where
  "sampleRun =
     [WatchFailed ''context deadline exceeded'', NextBackOff 500,
      WatchOpened, Delivered (putEvent 1509541200),
      Delivered (errorEvent ''etcdserver: mvcc: required revision has been compacted''), NextBackOff 750,
      WatchOpened, ChannelClosed, NextBackOff 1125]"

section \<open>Properties\<close>

lemmas sample_simps = sample_lib_def lookup_def noon_def hour_def zeroTime_def
  validCode_def expiredCode_def nullCode_def

subsection \<open>GetState\<close>

text \<open>
  Claim C1, as the code has it: for a cached expiry \<open>t\<close> other than the zero time,
  \<open>GetState\<close> answers \<open>EXPIRED\<close> when the current time is after \<open>t\<close> and \<open>ACTIVE\<close>
  otherwise; an expiry equal to the current time is still \<open>ACTIVE\<close>.
\<close>

theorem GetState_expired_after_expiry:
  assumes "enterpriseExpiry a = Some t" and "t \<noteq> zeroTime"
  shows "(t < now \<longrightarrow> GetState now a = Inr State_EXPIRED) \<and>
         (now \<le> t \<longrightarrow> GetState now a = Inr State_ACTIVE) \<and>
         GetState t a = Inr State_ACTIVE"
  using assms by (simp add: GetState_def IsZero_def After_def)

theorem GetState_expired_after_expiry_witness:
  "enterpriseExpiry \<lparr>enterpriseExpiry = Some noon, enterpriseToken = Map.empty\<rparr> = Some noon \<and>
   noon \<noteq> zeroTime \<and> noon < noon + hour \<and>
   GetState (noon + hour) \<lparr>enterpriseExpiry = Some noon, enterpriseToken = Map.empty\<rparr> = Inr State_EXPIRED \<and>
   GetState noon \<lparr>enterpriseExpiry = Some noon, enterpriseToken = Map.empty\<rparr> = Inr State_ACTIVE"
  using GetState_expired_after_expiry
    [of "\<lparr>enterpriseExpiry = Some noon, enterpriseToken = Map.empty\<rparr>" noon "noon + hour"]
  by (simp add: noon_def hour_def zeroTime_def)

text \<open>
  Claim C1 as stated fails at the boundary: with the cached expiry equal to the
  current time, \<open>GetState\<close> answers \<open>ACTIVE\<close>, not \<open>EXPIRED\<close>.
\<close>

theorem GetState_boundary_counterexample:
  "noon \<noteq> zeroTime \<and> \<not> noon < noon \<and>
   GetState noon \<lparr>enterpriseExpiry = Some noon, enterpriseToken = Map.empty\<rparr> = Inr State_ACTIVE \<and>
   GetState noon \<lparr>enterpriseExpiry = Some noon, enterpriseToken = Map.empty\<rparr> \<noteq> Inr State_EXPIRED"
  by (simp add: GetState_def IsZero_def After_def noon_def zeroTime_def)

lemma watchEvent_keeps_time:
  "watchEvent L ev a = (a', c) \<Longrightarrow> enterpriseExpiry a \<noteq> None \<Longrightarrow> enterpriseExpiry a' \<noteq> None"
  by (auto simp: watchEvent_def Let_def split: sum.splits EventType.splits option.splits if_splits)

lemma Activate_keeps_expiry:
  "Activate L now fault a code = Return (a', r) \<Longrightarrow> enterpriseExpiry a' = enterpriseExpiry a"
  by (auto simp: Activate_def NewSTM_def split: outcome.splits option.splits prod.splits sum.splits)

lemma reachable_holds_time: "reachable L a \<Longrightarrow> enterpriseExpiry a \<noteq> None"
proof (induction rule: reachable.induct)
  case (constructed dial a)
  then show ?case by (auto simp: NewEnterpriseServer_def split: sum.splits)
next
  case (watched a ev a' c)
  then show ?case using watchEvent_keeps_time by blast
next
  case (activated a now fault code a' r)
  then show ?case using Activate_keeps_expiry by metis
qed

text \<open>
  Claim C8: the server that \<open>NewEnterpriseServer\<close> returns holds the zero time, on
  which \<open>GetState\<close> answers \<open>NONE\<close>; every server reachable from it holds a time, and
  \<open>GetState\<close> answers with a state, never with an error.
\<close>

theorem GetState_never_fails:
  "(NewEnterpriseServer dial = Inr a0 \<longrightarrow>
      enterpriseExpiry a0 = Some zeroTime \<and> GetState now a0 = Inr State_NONE) \<and>
   (reachable L a \<longrightarrow>
      (\<exists>t. enterpriseExpiry a = Some t) \<and> (\<exists>st. GetState now a = Inr st))"
proof -
  have "reachable L a \<Longrightarrow> (\<exists>t. enterpriseExpiry a = Some t) \<and> (\<exists>st. GetState now a = Inr st)"
    using reachable_holds_time[of L a] by (auto simp: GetState_def)
  moreover have "NewEnterpriseServer dial = Inr a0 \<Longrightarrow>
      enterpriseExpiry a0 = Some zeroTime \<and> GetState now a0 = Inr State_NONE"
    by (auto simp: NewEnterpriseServer_def GetState_def IsZero_def split: sum.splits)
  ultimately show ?thesis by blast
qed

theorem GetState_never_fails_witness:
  "NewEnterpriseServer (Inr Map.empty) = Inr \<lparr>enterpriseExpiry = Some zeroTime, enterpriseToken = Map.empty\<rparr> \<and>
   GetState noon \<lparr>enterpriseExpiry = Some zeroTime, enterpriseToken = Map.empty\<rparr> = Inr State_NONE \<and>
   reachable sample_lib \<lparr>enterpriseExpiry = Some (noon + hour), enterpriseToken = Map.empty\<rparr> \<and>
   (\<exists>st. GetState noon \<lparr>enterpriseExpiry = Some (noon + hour), enterpriseToken = Map.empty\<rparr> = Inr st)"
proof -
  let ?a0 = "\<lparr>enterpriseExpiry = Some zeroTime, enterpriseToken = Map.empty\<rparr>"
  let ?a1 = "\<lparr>enterpriseExpiry = Some (noon + hour), enterpriseToken = Map.empty\<rparr>"
  let ?ev = "\<lparr>Type = EventPut, Key = ''token'',
              Value = Some \<lparr>ActivationCode = validCode, Expires = Some \<lparr>Seconds = 1509541200, Nanos = 0\<rparr>\<rparr>,
              Err = None\<rparr>"
  have new: "NewEnterpriseServer (Inr Map.empty) = Inr ?a0"
    by (simp add: NewEnterpriseServer_def)
  have "watchEvent sample_lib ?ev ?a0 = (?a1, Continue)"
    by (simp add: watchEvent_def Unmarshal_def sample_lib_def sample_TimestampFromProto_def
        unixToInternal_def noon_def hour_def)
  with new have r: "reachable sample_lib ?a1"
    by (blast intro: reachable.intros)
  from GetState_never_fails [of "Inr Map.empty" ?a0 noon sample_lib ?a1] new r
  show ?thesis by simp
qed

subsection \<open>Activate\<close>

text \<open>
  Claim C4: when \<open>validateActivationCode\<close> returns an error, \<open>Activate\<close> returns the
  error that wraps its message, and leaves the server as it was: nothing is written to
  the store and the cached expiry is untouched.
\<close>

theorem Activate_validation_error:
  assumes "validateActivationCode L now code = Return (t, Some err)"
  shows "Activate L now fault a code =
           Return (a, Inl (''error validating activation code: '' @ err))"
  using assms by (simp add: Activate_def)

theorem Activate_validation_error_witness:
  "validateActivationCode sample_lib noon expiredCode =
     Return (zeroTime, Some ''the activation code has expired'') \<and>
   Activate sample_lib noon None \<lparr>enterpriseExpiry = Some zeroTime, enterpriseToken = Map.empty\<rparr> expiredCode =
     Return (\<lparr>enterpriseExpiry = Some zeroTime, enterpriseToken = Map.empty\<rparr>,
             Inl ''error validating activation code: the activation code has expired'')"
proof -
  have v: "validateActivationCode sample_lib noon expiredCode =
      Return (zeroTime, Some ''the activation code has expired'')"
    by (simp add: validateActivationCode_def After_def sample_simps)
  from Activate_validation_error [OF v] v show ?thesis by simp
qed

text \<open>
  Claim C5: when \<open>validateActivationCode\<close> accepts the code with expiry \<open>e\<close>, whose
  protobuf form is \<open>p\<close>, \<open>Activate\<close> runs one transaction that writes the record of the
  code and \<open>p\<close> under the key \<open>token\<close>, whatever was there. If the store commits, that
  key holds exactly this record and every other key is unchanged; if the store answers
  with an error, \<open>Activate\<close> returns that very error and the store is unchanged.
  Whatever \<open>Activate\<close> returns, on any code, the cached expiry is the one it found.
\<close>

theorem Activate_commits_record:
  "(validateActivationCode L now code = Return (e, None) \<and> TimestampProto L e = Inr p \<longrightarrow>
      (fault = None \<longrightarrow>
         Activate L now fault a code =
           Return (a\<lparr>enterpriseToken :=
                       (enterpriseToken a)(''token'' \<mapsto> \<lparr>ActivationCode = code, Expires = Some p\<rparr>)\<rparr>,
                   Inr ActivateResponse)) \<and>
      (fault = Some err \<longrightarrow> Activate L now fault a code = Return (a, Inl err))) \<and>
   (\<forall>a' r. Activate L now fault a code = Return (a', r) \<longrightarrow>
      enterpriseExpiry a' = enterpriseExpiry a)"
proof (intro conjI impI allI)
  assume "validateActivationCode L now code = Return (e, None) \<and> TimestampProto L e = Inr p"
    and "fault = None"
  then show "Activate L now fault a code =
      Return (a\<lparr>enterpriseToken :=
                  (enterpriseToken a)(''token'' \<mapsto> \<lparr>ActivationCode = code, Expires = Some p\<rparr>)\<rparr>,
              Inr ActivateResponse)"
    by (simp add: Activate_def NewSTM_def Put_def enterpriseTokenKey_def)
next
  assume "validateActivationCode L now code = Return (e, None) \<and> TimestampProto L e = Inr p"
    and "fault = Some err"
  then show "Activate L now fault a code = Return (a, Inl err)"
    by (simp add: Activate_def NewSTM_def Put_def)
next
  fix a' r
  assume "Activate L now fault a code = Return (a', r)"
  then show "enterpriseExpiry a' = enterpriseExpiry a"
    by (rule Activate_keeps_expiry)
qed

theorem Activate_commits_record_witness:
  "validateActivationCode sample_lib noon validCode = Return (noon + hour, None) \<and>
   TimestampProto sample_lib (noon + hour) = Inr \<lparr>Seconds = 1509541200, Nanos = 0\<rparr> \<and>
   Activate sample_lib noon None \<lparr>enterpriseExpiry = Some zeroTime, enterpriseToken = Map.empty\<rparr> validCode =
     Return (\<lparr>enterpriseExpiry = Some zeroTime,
              enterpriseToken = [''token'' \<mapsto>
                \<lparr>ActivationCode = validCode, Expires = Some \<lparr>Seconds = 1509541200, Nanos = 0\<rparr>\<rparr>]\<rparr>,
             Inr ActivateResponse) \<and>
   Activate sample_lib noon (Some ''etcdserver: request timed out'')
       \<lparr>enterpriseExpiry = Some zeroTime, enterpriseToken = Map.empty\<rparr> validCode =
     Return (\<lparr>enterpriseExpiry = Some zeroTime, enterpriseToken = Map.empty\<rparr>,
             Inl ''etcdserver: request timed out'')"
proof -
  let ?b = "\<lparr>enterpriseExpiry = Some zeroTime, enterpriseToken = Map.empty\<rparr>"
  let ?p = "\<lparr>Seconds = 1509541200, Nanos = 0\<rparr>"
  have v: "validateActivationCode sample_lib noon validCode = Return (noon + hour, None)"
    by (simp add: validateActivationCode_def After_def sample_simps)
  have p: "TimestampProto sample_lib (noon + hour) = Inr ?p"
    by (simp add: sample_lib_def sample_TimestampProto_def unixToInternal_def noon_def hour_def)
  have ok: "Activate sample_lib noon None ?b validCode =
      Return (?b\<lparr>enterpriseToken :=
                   (enterpriseToken ?b)(''token'' \<mapsto> \<lparr>ActivationCode = validCode, Expires = Some ?p\<rparr>)\<rparr>,
              Inr ActivateResponse)"
    using Activate_commits_record [where L = sample_lib and now = noon and code = validCode
        and e = "noon + hour" and p = ?p and fault = None and a = ?b] v p
    by blast
  have ko: "Activate sample_lib noon (Some ''etcdserver: request timed out'') ?b validCode =
      Return (?b, Inl ''etcdserver: request timed out'')"
    using Activate_commits_record [where L = sample_lib and now = noon and code = validCode
        and e = "noon + hour" and p = ?p and fault = "Some ''etcdserver: request timed out''"
        and a = ?b and err = "''etcdserver: request timed out''"] v p
    by blast
  from v p ok ko show ?thesis by simp
qed

subsection \<open>The watch loop\<close>

lemma watchEvent_Put:
  "Type ev = EventPut \<Longrightarrow> TimestampFromProto L (Expires (Unmarshal ev)) = Inr e \<Longrightarrow>
   watchEvent L ev a = (a\<lparr>enterpriseExpiry := Some e\<rparr>, Continue)"
  by (simp add: watchEvent_def)

lemma watchEvents_Puts:
  "evs \<noteq> [] \<Longrightarrow>
   \<forall>ev \<in> set evs. Type ev = EventPut \<and> (\<exists>t. TimestampFromProto L (Expires (Unmarshal ev)) = Inr t) \<Longrightarrow>
   TimestampFromProto L (Expires (Unmarshal (last evs))) = Inr e \<Longrightarrow>
   watchEvents L evs a = (a\<lparr>enterpriseExpiry := Some e\<rparr>, Continue)"
proof (induction evs arbitrary: a)
  case Nil
  then show ?case by simp
next
  case (Cons ev evs)
  from Cons.prems(2) obtain t where t: "Type ev = EventPut"
    "TimestampFromProto L (Expires (Unmarshal ev)) = Inr t" by auto
  show ?case
  proof (cases "evs = []")
    case True
    with Cons.prems(3) t show ?thesis by (simp add: watchEvent_Put)
  next
    case False
    with Cons.prems have "watchEvents L evs (a\<lparr>enterpriseExpiry := Some t\<rparr>) =
        (a\<lparr>enterpriseExpiry := Some t\<rparr>\<lparr>enterpriseExpiry := Some e\<rparr>, Continue)"
      by (intro Cons.IH) auto
    with t show ?thesis by (simp add: watchEvent_Put)
  qed
qed

text \<open>
  Claim C6: a \<open>Put\<close> event whose record has the decodable expiry \<open>e\<close> replaces the
  cached expiry by \<open>e\<close>, whatever it was, and the loop goes on; after any non-empty
  sequence of such \<open>Put\<close> events the cached expiry is that of the last one.
\<close>

theorem Put_last_wins:
  "(Type ev = EventPut \<and> TimestampFromProto L (Expires (Unmarshal ev)) = Inr e \<longrightarrow>
      watchEvent L ev a = (a\<lparr>enterpriseExpiry := Some e\<rparr>, Continue)) \<and>
   (evs \<noteq> [] \<and>
    (\<forall>ev \<in> set evs. Type ev = EventPut \<and> (\<exists>t. TimestampFromProto L (Expires (Unmarshal ev)) = Inr t)) \<and>
    TimestampFromProto L (Expires (Unmarshal (last evs))) = Inr e' \<longrightarrow>
      watchEvents L evs a = (a\<lparr>enterpriseExpiry := Some e'\<rparr>, Continue))"
  using watchEvent_Put watchEvents_Puts by blast

lemma sample_expiry:
  "- 62135596800 \<le> secs \<Longrightarrow> secs < 253402300800 \<Longrightarrow>
   TimestampFromProto sample_lib (Expires (Unmarshal (putEvent secs))) = Inr ((secs + 62135596800) * 1000000000)"
  by (simp add: putEvent_def Unmarshal_def sample_lib_def sample_TimestampFromProto_def unixToInternal_def)

theorem Put_last_wins_witness:
  "Type (putEvent 1509541200) = EventPut \<and>
   TimestampFromProto sample_lib (Expires (Unmarshal (putEvent 1509541200))) = Inr (noon + hour) \<and>
   watchEvent sample_lib (putEvent 1509541200) \<lparr>enterpriseExpiry = Some noon, enterpriseToken = Map.empty\<rparr> =
     (\<lparr>enterpriseExpiry = Some (noon + hour), enterpriseToken = Map.empty\<rparr>, Continue) \<and>
   watchEvents sample_lib [putEvent 1509541200, putEvent 1509544800, putEvent 1509534000]
       \<lparr>enterpriseExpiry = Some zeroTime, enterpriseToken = Map.empty\<rparr> =
     (\<lparr>enterpriseExpiry = Some (noon - hour), enterpriseToken = Map.empty\<rparr>, Continue)"
proof -
  let ?a = "\<lparr>enterpriseExpiry = Some noon, enterpriseToken = Map.empty\<rparr>"
  let ?b = "\<lparr>enterpriseExpiry = Some zeroTime, enterpriseToken = Map.empty\<rparr>"
  let ?evs = "[putEvent 1509541200, putEvent 1509544800, putEvent 1509534000]"
  have ty: "Type (putEvent secs) = EventPut" for secs
    by (simp add: putEvent_def)
  have 1: "TimestampFromProto sample_lib (Expires (Unmarshal (putEvent 1509541200))) = Inr (noon + hour)"
    by (simp add: sample_expiry noon_def hour_def)
  have 2: "\<forall>ev \<in> set ?evs. Type ev = EventPut \<and>
      (\<exists>t. TimestampFromProto sample_lib (Expires (Unmarshal ev)) = Inr t)"
    by (simp add: ty sample_expiry)
  have 3: "TimestampFromProto sample_lib (Expires (Unmarshal (last ?evs))) = Inr (noon - hour)"
    by (simp add: sample_expiry noon_def hour_def)
  have one: "watchEvent sample_lib (putEvent 1509541200) ?a = (?a\<lparr>enterpriseExpiry := Some (noon + hour)\<rparr>, Continue)"
    using Put_last_wins [where ev = "putEvent 1509541200" and L = sample_lib and e = "noon + hour" and a = ?a]
      ty 1 by blast
  have more: "watchEvents sample_lib ?evs ?b = (?b\<lparr>enterpriseExpiry := Some (noon - hour)\<rparr>, Continue)"
    using Put_last_wins [where L = sample_lib and evs = ?evs and e' = "noon - hour" and a = ?b]
      2 3 by blast
  from one more ty 1 show ?thesis by (simp del: watchEvents.simps)
qed

lemma sample_delete_expiry:
  "- 62135596800 \<le> secs \<Longrightarrow> secs < 253402300800 \<Longrightarrow>
   TimestampFromProto sample_lib (Expires (Unmarshal (deleteEvent secs))) = Inr ((secs + 62135596800) * 1000000000)"
  by (simp add: deleteEvent_def Unmarshal_def sample_lib_def sample_TimestampFromProto_def unixToInternal_def)

text \<open>
  Claim C7: on a \<open>Delete\<close> event whose record has the decodable expiry \<open>e\<close>, with the
  cache holding the time \<open>cached\<close>: if \<open>e\<close> is \<open>cached\<close> the cache is reset to the zero
  time, otherwise the server is left exactly as it was; either way the loop goes on
  to the next event.
\<close>

theorem Delete_resets_on_match_only:
  assumes "Type ev = EventDelete"
    and "TimestampFromProto L (Expires (Unmarshal ev)) = Inr e"
    and "enterpriseExpiry a = Some cached"
  shows "(e = cached \<longrightarrow> watchEvent L ev a = (a\<lparr>enterpriseExpiry := Some zeroTime\<rparr>, Continue)) \<and>
         (e \<noteq> cached \<longrightarrow> watchEvent L ev a = (a, Continue)) \<and>
         watchEvents L (ev # evs) a = watchEvents L evs (fst (watchEvent L ev a))"
  using assms by (simp add: watchEvent_def)

theorem Delete_resets_on_match_only_witness:
  "Type (deleteEvent 1509541200) = EventDelete \<and>
   TimestampFromProto sample_lib (Expires (Unmarshal (deleteEvent 1509541200))) = Inr (noon + hour) \<and>
   watchEvent sample_lib (deleteEvent 1509541200)
       \<lparr>enterpriseExpiry = Some (noon + hour), enterpriseToken = Map.empty\<rparr> =
     (\<lparr>enterpriseExpiry = Some zeroTime, enterpriseToken = Map.empty\<rparr>, Continue) \<and>
   watchEvent sample_lib (deleteEvent 1509541200)
       \<lparr>enterpriseExpiry = Some noon, enterpriseToken = Map.empty\<rparr> =
     (\<lparr>enterpriseExpiry = Some noon, enterpriseToken = Map.empty\<rparr>, Continue)"
proof -
  let ?b = "\<lparr>enterpriseExpiry = Some (noon + hour), enterpriseToken = Map.empty\<rparr>"
  let ?c = "\<lparr>enterpriseExpiry = Some noon, enterpriseToken = Map.empty\<rparr>"
  have ty: "Type (deleteEvent 1509541200) = EventDelete"
    by (simp add: deleteEvent_def)
  have ex: "TimestampFromProto sample_lib (Expires (Unmarshal (deleteEvent 1509541200))) = Inr (noon + hour)"
    by (simp add: sample_delete_expiry noon_def hour_def)
  have ne: "noon + hour \<noteq> noon"
    by (simp add: hour_def)
  have hit: "watchEvent sample_lib (deleteEvent 1509541200) ?b = (?b\<lparr>enterpriseExpiry := Some zeroTime\<rparr>, Continue)"
    using Delete_resets_on_match_only [OF ty ex, of ?b "noon + hour"] by simp
  have miss: "watchEvent sample_lib (deleteEvent 1509541200) ?c = (?c, Continue)"
    using Delete_resets_on_match_only [OF ty ex, of ?c noon] ne by simp
  from ty ex hit miss show ?thesis by simp
qed

text \<open>
  Claim C10: the expiry of the event's record is decoded before the switch on the
  event's type. An event of any type whose record has no decodable expiry makes the
  iteration, and so the closure, return the error \<open>could not parse expiration
  timestamp\<close>; this includes an \<open>Error\<close> event that carries no record, once the nil
  timestamp does not decode. An \<open>Error\<close> event returns its own \<open>Err\<close> exactly when its
  record's expiry decodes.
\<close>

theorem decode_before_dispatch:
  "(TimestampFromProto L (Expires (Unmarshal ev)) = Inl err \<longrightarrow>
      watchEvent L ev a = (a, Exit (Some (''could not parse expiration timestamp: '' @ err))) \<and>
      watchOperation L (Inr (ev # evs)) a = (a, Some (''could not parse expiration timestamp: '' @ err))) \<and>
   (Type ev = EventError \<and> Value ev = None \<and> TimestampFromProto L None = Inl err \<longrightarrow>
      watchEvent L ev a = (a, Exit (Some (''could not parse expiration timestamp: '' @ err)))) \<and>
   (Type ev = EventError \<longrightarrow>
      watchEvent L ev a =
        (a, Exit (case TimestampFromProto L (Expires (Unmarshal ev)) of
                    Inl err \<Rightarrow> Some (''could not parse expiration timestamp: '' @ err)
                  | Inr expiry \<Rightarrow> Err ev)))"
  by (simp add: watchEvent_def watchOperation_def Unmarshal_def split: sum.splits)

theorem decode_before_dispatch_witness:
  "Type (errorEvent ''etcdserver: mvcc: required revision has been compacted'') = EventError \<and>
   Value (errorEvent ''etcdserver: mvcc: required revision has been compacted'') = None \<and>
   TimestampFromProto sample_lib None = Inl ''timestamp: nil Timestamp'' \<and>
   watchEvent sample_lib (errorEvent ''etcdserver: mvcc: required revision has been compacted'')
       \<lparr>enterpriseExpiry = Some noon, enterpriseToken = Map.empty\<rparr> =
     (\<lparr>enterpriseExpiry = Some noon, enterpriseToken = Map.empty\<rparr>,
      Exit (Some ''could not parse expiration timestamp: timestamp: nil Timestamp''))"
proof -
  let ?ev = "errorEvent ''etcdserver: mvcc: required revision has been compacted''"
  let ?b = "\<lparr>enterpriseExpiry = Some noon, enterpriseToken = Map.empty\<rparr>"
  have ty: "Type ?ev = EventError" and va: "Value ?ev = None"
    by (simp_all add: errorEvent_def)
  have nil: "TimestampFromProto sample_lib None = Inl ''timestamp: nil Timestamp''"
    by (simp add: sample_lib_def sample_TimestampFromProto_def)
  have "watchEvent sample_lib ?ev ?b =
      (?b, Exit (Some (''could not parse expiration timestamp: '' @ ''timestamp: nil Timestamp'')))"
    using decode_before_dispatch [where L = sample_lib and ev = ?ev and err = "''timestamp: nil Timestamp''" and a = ?b]
      ty va nil by blast
  with ty va nil show ?thesis by simp
qed

subsection \<open>The retry loop\<close>

lemma step_not_terminated:
  "\<not> terminated s \<Longrightarrow> carriesError i \<Longrightarrow> step L s i = Some s' \<Longrightarrow> \<not> terminated s'"
  by (auto simp: step_def terminated_def carriesError_def afterOperation_def watchEvent_def Let_def
      split: phase.splits input.splits prod.splits control.splits sum.splits EventType.splits
        option.splits if_splits)

lemma run_not_terminated:
  "\<not> terminated s \<Longrightarrow> \<forall>i \<in> set ins. carriesError i \<Longrightarrow> run L s ins = Some s' \<Longrightarrow> \<not> terminated s'"
proof (induction ins arbitrary: s)
  case Nil
  then show ?case by simp
next
  case (Cons i ins)
  then obtain s1 where s1: "step L s i = Some s1" "run L s1 ins = Some s'"
    by (auto split: option.splits)
  with Cons.prems have "\<not> terminated s1" using step_not_terminated by auto
  with Cons s1 show ?case by auto
qed

lemma step_Error_event:
  "phase s = Streaming \<Longrightarrow> Type ev = EventError \<Longrightarrow> Err ev = Some e \<Longrightarrow>
   step L s (Delivered ev) =
     Some (s\<lparr>phase := Backoff (case TimestampFromProto L (Expires (Unmarshal ev)) of
                               Inl err \<Rightarrow> ''could not parse expiration timestamp: '' @ err
                             | Inr expiry \<Rightarrow> e)\<rparr>)"
  by (simp add: step_def watchEvent_def afterOperation_def split: sum.splits)

lemma step_Backoff:
  "phase s = Backoff err \<Longrightarrow> step L s i = Some s' \<Longrightarrow>
   (\<exists>d. i = NextBackOff d) \<and> phase s' = Connecting"
  by (auto simp: step_def split: input.splits)

text \<open>
  Claim C9: a watch that fails to open, an \<open>Error\<close> event that carries its error, and
  a channel that closes each take the loop to \<open>Backoff\<close>; from \<open>Backoff\<close> the only
  step, whatever the number of retries so far, logs the failure with the delay and
  returns to \<open>Connecting\<close>; and along any run in which the delivered \<open>Error\<close> events
  carry their errors, a loop that has not terminated never does.
\<close>

theorem watch_retries_forever:
  "(phase s = Connecting \<longrightarrow> step L s (WatchFailed err) = Some (s\<lparr>phase := Backoff err\<rparr>)) \<and>
   (phase s = Streaming \<longrightarrow>
      step L s ChannelClosed = Some (s\<lparr>phase := Backoff ''admin watch closed unexpectedly''\<rparr>)) \<and>
   (phase s = Streaming \<and> Type ev = EventError \<and> Err ev = Some e \<longrightarrow>
      step L s (Delivered ev) =
        Some (s\<lparr>phase := Backoff (case TimestampFromProto L (Expires (Unmarshal ev)) of
                                  Inl err \<Rightarrow> ''could not parse expiration timestamp: '' @ err
                                | Inr expiry \<Rightarrow> e)\<rparr>)) \<and>
   (phase s = Backoff err \<longrightarrow>
      step L s (NextBackOff d) =
        Some (s\<lparr>phase := Connecting, retries := Suc (retries s), logged := logged s @ [(err, d)]\<rparr>) \<and>
      (\<forall>i s'. step L s i = Some s' \<longrightarrow> phase s' = Connecting)) \<and>
   (\<not> terminated s \<and> list_all carriesError ins \<and> run L s ins = Some s' \<longrightarrow> \<not> terminated s')"
proof (intro conjI impI)
  assume "phase s = Connecting"
  then show "step L s (WatchFailed err) = Some (s\<lparr>phase := Backoff err\<rparr>)"
    by (simp add: step_def afterOperation_def)
next
  assume "phase s = Streaming"
  then show "step L s ChannelClosed = Some (s\<lparr>phase := Backoff ''admin watch closed unexpectedly''\<rparr>)"
    by (simp add: step_def afterOperation_def)
next
  assume "phase s = Streaming \<and> Type ev = EventError \<and> Err ev = Some e"
  then show "step L s (Delivered ev) =
        Some (s\<lparr>phase := Backoff (case TimestampFromProto L (Expires (Unmarshal ev)) of
                                  Inl err \<Rightarrow> ''could not parse expiration timestamp: '' @ err
                                | Inr expiry \<Rightarrow> e)\<rparr>)"
    by (simp add: step_Error_event)
next
  assume "phase s = Backoff err"
  then show "step L s (NextBackOff d) =
      Some (s\<lparr>phase := Connecting, retries := Suc (retries s), logged := logged s @ [(err, d)]\<rparr>)"
    by (simp add: step_def)
next
  assume "phase s = Backoff err"
  then show "\<forall>i s'. step L s i = Some s' \<longrightarrow> phase s' = Connecting"
    using step_Backoff by blast
next
  assume "\<not> terminated s \<and> list_all carriesError ins \<and> run L s ins = Some s'"
  then show "\<not> terminated s'"
    using run_not_terminated by (auto simp: list_all_iff)
qed

lemma sample_run:
  "run sample_lib (startWatch \<lparr>enterpriseExpiry = Some zeroTime, enterpriseToken = Map.empty\<rparr>) sampleRun =
     Some \<lparr>server = \<lparr>enterpriseExpiry = Some (noon + hour), enterpriseToken = Map.empty\<rparr>,
           phase = Connecting, retries = 3,
           logged = [(''context deadline exceeded'', 500),
                     (''could not parse expiration timestamp: timestamp: nil Timestamp'', 750),
                     (''admin watch closed unexpectedly'', 1125)]\<rparr>"
  by (simp add: sampleRun_def startWatch_def step_def afterOperation_def watchEvent_def
      Unmarshal_def putEvent_def errorEvent_def sample_lib_def sample_TimestampFromProto_def
      unixToInternal_def noon_def hour_def)

theorem watch_retries_forever_witness:
  "phase (startWatch \<lparr>enterpriseExpiry = Some zeroTime, enterpriseToken = Map.empty\<rparr>) = Connecting \<and>
   step sample_lib (startWatch \<lparr>enterpriseExpiry = Some zeroTime, enterpriseToken = Map.empty\<rparr>)
       (WatchFailed ''context deadline exceeded'') =
     Some \<lparr>server = \<lparr>enterpriseExpiry = Some zeroTime, enterpriseToken = Map.empty\<rparr>,
           phase = Backoff ''context deadline exceeded'', retries = 0, logged = []\<rparr> \<and>
   \<not> terminated (startWatch \<lparr>enterpriseExpiry = Some zeroTime, enterpriseToken = Map.empty\<rparr>) \<and>
   list_all carriesError sampleRun \<and>
   run sample_lib (startWatch \<lparr>enterpriseExpiry = Some zeroTime, enterpriseToken = Map.empty\<rparr>) sampleRun =
     Some \<lparr>server = \<lparr>enterpriseExpiry = Some (noon + hour), enterpriseToken = Map.empty\<rparr>,
           phase = Connecting, retries = 3,
           logged = [(''context deadline exceeded'', 500),
                     (''could not parse expiration timestamp: timestamp: nil Timestamp'', 750),
                     (''admin watch closed unexpectedly'', 1125)]\<rparr> \<and>
   \<not> terminated
       \<lparr>server = \<lparr>enterpriseExpiry = Some (noon + hour), enterpriseToken = Map.empty\<rparr>,
        phase = Connecting, retries = 3,
        logged = [(''context deadline exceeded'', 500),
                  (''could not parse expiration timestamp: timestamp: nil Timestamp'', 750),
                  (''admin watch closed unexpectedly'', 1125)]\<rparr>"
proof -
  let ?s = "startWatch \<lparr>enterpriseExpiry = Some zeroTime, enterpriseToken = Map.empty\<rparr>"
  let ?t = "\<lparr>server = \<lparr>enterpriseExpiry = Some (noon + hour), enterpriseToken = Map.empty\<rparr>,
        phase = Connecting, retries = 3,
        logged = [(''context deadline exceeded'', 500),
                  (''could not parse expiration timestamp: timestamp: nil Timestamp'', 750),
                  (''admin watch closed unexpectedly'', 1125)]\<rparr>"
  have ph: "phase ?s = Connecting"
    by (simp add: startWatch_def)
  have nt: "\<not> terminated ?s"
    by (simp add: startWatch_def terminated_def)
  have ok: "list_all carriesError sampleRun"
    by (simp add: sampleRun_def carriesError_def putEvent_def errorEvent_def)
  note inst = watch_retries_forever [where L = sample_lib and s = ?s and ins = sampleRun and s' = ?t
      and err = "''context deadline exceeded''"]
  have fail: "step sample_lib ?s (WatchFailed ''context deadline exceeded'') =
      Some (?s\<lparr>phase := Backoff ''context deadline exceeded''\<rparr>)"
    using inst ph by blast
  have fin: "\<not> terminated ?t"
    using inst nt ok sample_run by blast
  from ph nt ok sample_run fin fail show ?thesis
    by (simp add: startWatch_def)
qed

subsection \<open>validateActivationCode\<close>

text \<open>
  The failures of the check, in the order the code tests for them, once the embedded
  public key has loaded: each returns the zero time and its own message, whatever the
  later tests would have found.
\<close>

theorem validateActivationCode_errors:
  assumes "pem_Decode L publicKey = Some block"
    and "x509_ParsePKIXPublicKey L block = Inr (rsa_PublicKey n ex)"
  shows
   "(base64_DecodeString L code = Inl e1 \<longrightarrow>
       failsWith (validateActivationCode L now code)
         ''activation code is not base64 encoded'' InvalidEncoding) \<and>
    (base64_DecodeString L code = Inr decoded \<and>
     json_Unmarshal_activationCode L decoded = Inl e2 \<longrightarrow>
       failsWith (validateActivationCode L now code)
         ''activation code is not valid JSON'' MalformedCode) \<and>
    (base64_DecodeString L code = Inr decoded \<and>
     json_Unmarshal_activationCode L decoded = Inr (Some ac) \<and>
     base64_DecodeString L (Signature ac) = Inl e3 \<longrightarrow>
       failsWith (validateActivationCode L now code)
         ''signature is not base64 encoded'' InvalidEncoding) \<and>
    (base64_DecodeString L code = Inr decoded \<and>
     json_Unmarshal_activationCode L decoded = Inr (Some ac) \<and>
     base64_DecodeString L (Signature ac) = Inr sg \<and>
     rsa_VerifyPKCS1v15 L (rsa_PublicKey n ex) (sha256_Sum256 L (Token ac)) sg = Some e4 \<longrightarrow>
       failsWith (validateActivationCode L now code)
         ''invalid signature in activation code'' InvalidSignature) \<and>
    (base64_DecodeString L code = Inr decoded \<and>
     json_Unmarshal_activationCode L decoded = Inr (Some ac) \<and>
     base64_DecodeString L (Signature ac) = Inr sg \<and>
     rsa_VerifyPKCS1v15 L (rsa_PublicKey n ex) (sha256_Sum256 L (Token ac)) sg = None \<and>
     json_Unmarshal_token L (Token ac) = Inl e5 \<longrightarrow>
       failsWith (validateActivationCode L now code)
         ''token is not valid JSON'' MalformedToken) \<and>
    (base64_DecodeString L code = Inr decoded \<and>
     json_Unmarshal_activationCode L decoded = Inr (Some ac) \<and>
     base64_DecodeString L (Signature ac) = Inr sg \<and>
     rsa_VerifyPKCS1v15 L (rsa_PublicKey n ex) (sha256_Sum256 L (Token ac)) sg = None \<and>
     json_Unmarshal_token L (Token ac) = Inr tok \<and>
     time_Parse L (Expiry tok) = Inl e6 \<longrightarrow>
       failsWith (validateActivationCode L now code)
         ''expiry is not valid ISO 8601 string'' MalformedExpiry) \<and>
    (base64_DecodeString L code = Inr decoded \<and>
     json_Unmarshal_activationCode L decoded = Inr (Some ac) \<and>
     base64_DecodeString L (Signature ac) = Inr sg \<and>
     rsa_VerifyPKCS1v15 L (rsa_PublicKey n ex) (sha256_Sum256 L (Token ac)) sg = None \<and>
     json_Unmarshal_token L (Token ac) = Inr tok \<and>
     time_Parse L (Expiry tok) = Inr expiry \<and>
     expiry < now \<longrightarrow>
       failsWith (validateActivationCode L now code)
         ''the activation code has expired'' AlreadyExpired)"
  using assms
  by (simp add: validateActivationCode_def failsWith_def spec_errorKind_def After_def)

theorem validateActivationCode_errors_witness:
  "pem_Decode sample_lib publicKey = Some ''der'' \<and>
   x509_ParsePKIXPublicKey sample_lib ''der'' = Inr (rsa_PublicKey 3233 17) \<and>
   base64_DecodeString sample_lib ''!'' = Inl ''illegal base64 data'' \<and>
   failsWith (validateActivationCode sample_lib noon ''!'')
     ''activation code is not base64 encoded'' InvalidEncoding \<and>
   failsWith (validateActivationCode sample_lib noon ''bm90IGpzb24='')
     ''activation code is not valid JSON'' MalformedCode \<and>
   failsWith (validateActivationCode sample_lib noon ''ZXhwPTEzOjAwOyoqKg=='')
     ''signature is not base64 encoded'' InvalidEncoding \<and>
   failsWith (validateActivationCode sample_lib noon ''ZXhwPTEzOjAwO1ptOXlaMlZr'')
     ''invalid signature in activation code'' InvalidSignature \<and>
   failsWith (validateActivationCode sample_lib noon ''anVuaztjMmxuSTJwMWJtcz0='')
     ''token is not valid JSON'' MalformedToken \<and>
   failsWith (validateActivationCode sample_lib noon ''ZXhwPXNvb247YzJsbkkyVjRjRDF6YjI5dQ=='')
     ''expiry is not valid ISO 8601 string'' MalformedExpiry \<and>
   failsWith (validateActivationCode sample_lib noon expiredCode)
     ''the activation code has expired'' AlreadyExpired"
proof -
  have k1: "pem_Decode sample_lib publicKey = Some ''der''"
    by (simp add: sample_lib_def)
  have k2: "x509_ParsePKIXPublicKey sample_lib ''der'' = Inr (rsa_PublicKey 3233 17)"
    by (simp add: sample_lib_def lookup_def)
  note errs = validateActivationCode_errors [OF k1 k2, where now = noon]
  have b: "base64_DecodeString sample_lib ''!'' = Inl ''illegal base64 data''"
    by (simp add: sample_lib_def lookup_def)
  have 1: "failsWith (validateActivationCode sample_lib noon ''!'')
      ''activation code is not base64 encoded'' InvalidEncoding"
    using errs [where code = "''!''" and ?e1.0 = "''illegal base64 data''"] b by blast
  have 2: "failsWith (validateActivationCode sample_lib noon ''bm90IGpzb24='')
      ''activation code is not valid JSON'' MalformedCode"
    using errs [where code = "''bm90IGpzb24=''" and decoded = "''not json''"
        and ?e2.0 = "''invalid character''"]
    by (simp add: sample_lib_def lookup_def)
  have 3: "failsWith (validateActivationCode sample_lib noon ''ZXhwPTEzOjAwOyoqKg=='')
      ''signature is not base64 encoded'' InvalidEncoding"
    using errs [where code = "''ZXhwPTEzOjAwOyoqKg==''" and decoded = "''exp=13:00;***''"
        and ac = "\<lparr>Token = ''exp=13:00'', Signature = ''***''\<rparr>" and ?e3.0 = "''illegal base64 data''"]
    by (simp add: sample_lib_def lookup_def)
  have 4: "failsWith (validateActivationCode sample_lib noon ''ZXhwPTEzOjAwO1ptOXlaMlZr'')
      ''invalid signature in activation code'' InvalidSignature"
    using errs [where code = "''ZXhwPTEzOjAwO1ptOXlaMlZr''" and decoded = "''exp=13:00;Zm9yZ2Vk''"
        and ac = "\<lparr>Token = ''exp=13:00'', Signature = ''Zm9yZ2Vk''\<rparr>" and sg = "''forged''"
        and ?e4.0 = "''crypto/rsa: verification error''"]
    by (simp add: sample_lib_def lookup_def)
  have 5: "failsWith (validateActivationCode sample_lib noon ''anVuaztjMmxuSTJwMWJtcz0='')
      ''token is not valid JSON'' MalformedToken"
    using errs [where code = "''anVuaztjMmxuSTJwMWJtcz0=''" and decoded = "''junk;c2lnI2p1bms=''"
        and ac = "\<lparr>Token = ''junk'', Signature = ''c2lnI2p1bms=''\<rparr>" and sg = "''sig#junk''"
        and ?e5.0 = "''invalid character''"]
    by (simp add: sample_lib_def lookup_def)
  have 6: "failsWith (validateActivationCode sample_lib noon ''ZXhwPXNvb247YzJsbkkyVjRjRDF6YjI5dQ=='')
      ''expiry is not valid ISO 8601 string'' MalformedExpiry"
    using errs [where code = "''ZXhwPXNvb247YzJsbkkyVjRjRDF6YjI5dQ==''"
        and decoded = "''exp=soon;c2lnI2V4cD1zb29u''"
        and ac = "\<lparr>Token = ''exp=soon'', Signature = ''c2lnI2V4cD1zb29u''\<rparr>" and sg = "''sig#exp=soon''"
        and tok = "\<lparr>Expiry = ''soon''\<rparr>" and ?e6.0 = "''parsing time: cannot parse''"]
    by (simp add: sample_lib_def lookup_def)
  have 7: "failsWith (validateActivationCode sample_lib noon expiredCode)
      ''the activation code has expired'' AlreadyExpired"
    using errs [where code = expiredCode and decoded = "''exp=11:00;c2lnI2V4cD0xMTowMA==''"
        and ac = "\<lparr>Token = ''exp=11:00'', Signature = ''c2lnI2V4cD0xMTowMA==''\<rparr>"
        and sg = "''sig#exp=11:00''" and tok = "\<lparr>Expiry = ''2017-11-01T11:00:00Z''\<rparr>"
        and expiry = "noon - hour"]
    by (simp add: sample_lib_def lookup_def expiredCode_def hour_def)
  from k1 k2 b 1 2 3 4 5 6 7 show ?thesis by blast
qed

text \<open>
  The case the tests miss: \<open>json.Unmarshal\<close> is handed the address of the pointer
  variable \<open>activationCode\<close>, so a decoded code that sets it to nil without an error is
  not rejected, and the read of \<open>activationCode.Signature\<close> that follows panics.
\<close>

lemma validateActivationCode_nil_envelope:
  assumes "pem_Decode L publicKey = Some block"
    and "x509_ParsePKIXPublicKey L block = Inr (rsa_PublicKey n ex)"
    and "base64_DecodeString L code = Inr decoded"
    and "json_Unmarshal_activationCode L decoded = Inr None"
  shows "validateActivationCode L now code = Panic"
  using assms by (simp add: validateActivationCode_def)

text \<open>
  Claim C2 at the code \<open>bnVsbA==\<close>, the base64 form of the JSON literal \<open>null\<close>: the
  code is base64, its decoded bytes are not an envelope, and the check neither
  returns the error \<open>activation code is not valid JSON\<close> nor any other result: it
  panics, and so does \<open>Activate\<close>.
\<close>

theorem validateActivationCode_null_panics:
  "nullCode = ''bnVsbA=='' \<and>
   base64_DecodeString sample_lib nullCode = Inr ''null'' \<and>
   json_Unmarshal_activationCode sample_lib ''null'' = Inr None \<and>
   validateActivationCode sample_lib noon nullCode = Panic \<and>
   \<not> failsWith (validateActivationCode sample_lib noon nullCode)
       ''activation code is not valid JSON'' MalformedCode \<and>
   Activate sample_lib noon None \<lparr>enterpriseExpiry = Some zeroTime, enterpriseToken = Map.empty\<rparr> nullCode = Panic"
  by (simp add: validateActivationCode_def Activate_def failsWith_def sample_simps)

text \<open>
  Claim C3: a code that is base64 of an envelope, whose signature is base64 and
  verifies against the embedded public key over the digest of the token as received,
  and whose token holds an expiry in RFC 3339 form that lies after the current time,
  is accepted: the check returns exactly that expiry and no error.
\<close>

theorem validateActivationCode_accepts:
  assumes "pem_Decode L publicKey = Some block"
    and "x509_ParsePKIXPublicKey L block = Inr (rsa_PublicKey n ex)"
    and "base64_DecodeString L code = Inr decoded"
    and "json_Unmarshal_activationCode L decoded = Inr (Some ac)"
    and "base64_DecodeString L (Signature ac) = Inr sg"
    and "rsa_VerifyPKCS1v15 L (rsa_PublicKey n ex) (sha256_Sum256 L (Token ac)) sg = None"
    and "json_Unmarshal_token L (Token ac) = Inr tok"
    and "time_Parse L (Expiry tok) = Inr expiry"
    and "now < expiry"
  shows "validateActivationCode L now code = Return (expiry, None)"
  using assms by (simp add: validateActivationCode_def After_def)

theorem validateActivationCode_accepts_witness:
  "pem_Decode sample_lib publicKey = Some ''der'' \<and>
   x509_ParsePKIXPublicKey sample_lib ''der'' = Inr (rsa_PublicKey 3233 17) \<and>
   base64_DecodeString sample_lib validCode = Inr ''exp=13:00;c2lnI2V4cD0xMzowMA=='' \<and>
   json_Unmarshal_activationCode sample_lib ''exp=13:00;c2lnI2V4cD0xMzowMA=='' =
     Inr (Some \<lparr>Token = ''exp=13:00'', Signature = ''c2lnI2V4cD0xMzowMA==''\<rparr>) \<and>
   base64_DecodeString sample_lib ''c2lnI2V4cD0xMzowMA=='' = Inr ''sig#exp=13:00'' \<and>
   rsa_VerifyPKCS1v15 sample_lib (rsa_PublicKey 3233 17)
     (sha256_Sum256 sample_lib ''exp=13:00'') ''sig#exp=13:00'' = None \<and>
   json_Unmarshal_token sample_lib ''exp=13:00'' = Inr \<lparr>Expiry = ''2017-11-01T13:00:00Z''\<rparr> \<and>
   time_Parse sample_lib ''2017-11-01T13:00:00Z'' = Inr (noon + hour) \<and>
   noon < noon + hour \<and>
   validateActivationCode sample_lib noon validCode = Return (noon + hour, None)"
proof -
  let ?ac = "\<lparr>Token = ''exp=13:00'', Signature = ''c2lnI2V4cD0xMzowMA==''\<rparr>"
  have 1: "pem_Decode sample_lib publicKey = Some ''der''"
    by (simp add: sample_lib_def)
  have 2: "x509_ParsePKIXPublicKey sample_lib ''der'' = Inr (rsa_PublicKey 3233 17)"
    by (simp add: sample_lib_def lookup_def)
  have 3: "base64_DecodeString sample_lib validCode = Inr ''exp=13:00;c2lnI2V4cD0xMzowMA==''"
    by (simp add: sample_lib_def lookup_def validCode_def)
  have 4: "json_Unmarshal_activationCode sample_lib ''exp=13:00;c2lnI2V4cD0xMzowMA=='' = Inr (Some ?ac)"
    by (simp add: sample_lib_def lookup_def)
  have 5: "base64_DecodeString sample_lib (Signature ?ac) = Inr ''sig#exp=13:00''"
    by (simp add: sample_lib_def lookup_def)
  have 6: "rsa_VerifyPKCS1v15 sample_lib (rsa_PublicKey 3233 17)
      (sha256_Sum256 sample_lib (Token ?ac)) ''sig#exp=13:00'' = None"
    by (simp add: sample_lib_def)
  have 7: "json_Unmarshal_token sample_lib (Token ?ac) = Inr \<lparr>Expiry = ''2017-11-01T13:00:00Z''\<rparr>"
    by (simp add: sample_lib_def lookup_def)
  have 8: "time_Parse sample_lib (Expiry \<lparr>Expiry = ''2017-11-01T13:00:00Z''\<rparr>) = Inr (noon + hour)"
    by (simp add: sample_lib_def lookup_def)
  have 9: "noon < noon + hour"
    by (simp add: hour_def)
  from validateActivationCode_accepts [OF 1 2 3 4 5 6 7 8 9] 1 2 3 4 5 6 7 8 9
  show ?thesis by simp
qed

end
